theory Spec2Isabelle
  imports
    Complex_Main
    "HOL-Library.Sublist"
    "HOL-Library.Char_ord"
    "HOL-Library.List_Lexorder"
begin

section \<open>Python strings\<close>

text \<open>
  A Python \<open>str\<close> is a sequence of code points. The model covers the code points below
  256: a \<^typ>\<open>char\<close> is one code point, \<^typ>\<open>string\<close> is a \<open>str\<close>. Comparison of two
  \<open>str\<close> values is lexicographic on code points, which is the order of
  \<open>HOL-Library.List_Lexorder\<close> over \<open>HOL-Library.Char_ord\<close>.
  \<open>a.startswith(b)\<close> is \<^term>\<open>prefix b a\<close>, \<open>a.endswith(b)\<close> is \<^term>\<open>suffix b a\<close> and
  \<open>b in a\<close> is \<^term>\<open>sublist b a\<close>.
\<close>

definition py_isspace :: "char \<Rightarrow> bool" where
  \<comment> \<open>the code points below 256 that \<open>str.strip()\<close> removes\<close>
  "py_isspace c = (of_char c \<in> set [9, 10, 11, 12, 13, 28, 29, 30, 31, 32, 133, 160 :: nat])"

definition py_strip :: "string \<Rightarrow> string" where
  "py_strip s = rev (dropWhile py_isspace (rev (dropWhile py_isspace s)))"

definition py_lower_char :: "char \<Rightarrow> char" where
  \<comment> \<open>\<open>A\<close>..\<open>Z\<close> and the Latin-1 capitals (192..222 without the multiplication sign 215)\<close>
  "py_lower_char c =
     (let n = (of_char c :: nat)
      in if (65 \<le> n \<and> n \<le> 90) \<or> (192 \<le> n \<and> n \<le> 222 \<and> n \<noteq> 215)
         then char_of (n + 32) else c)"

definition py_lower :: "string \<Rightarrow> string" where
  "py_lower s = map py_lower_char s"

definition py_join :: "string \<Rightarrow> string list \<Rightarrow> string" where
  \<comment> \<open>\<open>sep.join(parts)\<close>\<close>
  "py_join sep parts = (case parts of [] \<Rightarrow> [] | p # ps \<Rightarrow> p @ concat (map (\<lambda>q. sep @ q) ps))"

section \<open>Recording store\<close>

subsection \<open>Timestamps and file names\<close>

record datetime =
  year :: nat
  month :: nat
  day :: nat
  hour :: nat
  minute :: nat
  second :: nat
  microsecond :: nat

definition valid_datetime :: "datetime \<Rightarrow> bool" where
  \<comment> \<open>the field ranges of a \<open>datetime\<close> whose year prints with four digits\<close>
  "valid_datetime d =
     (1000 \<le> year d \<and> year d \<le> 9999 \<and> 1 \<le> month d \<and> month d \<le> 12 \<and>
      1 \<le> day d \<and> day d \<le> 31 \<and> hour d < 24 \<and> minute d < 60 \<and> second d < 60 \<and>
      microsecond d < 1000000)"

definition digit :: "nat \<Rightarrow> char" where
  "digit n = ''0123456789'' ! (n mod 10)"

definition pad2 :: "nat \<Rightarrow> string" where
  \<comment> \<open>\<open>%m\<close>, \<open>%d\<close>, \<open>%H\<close>, \<open>%M\<close>, \<open>%S\<close>: two digits, zero padded\<close>
  "pad2 n = [digit (n div 10), digit n]"

definition pad4 :: "nat \<Rightarrow> string" where
  \<comment> \<open>\<open>%Y\<close> for a year between 1000 and 9999\<close>
  "pad4 n = [digit (n div 1000), digit (n div 100), digit (n div 10), digit n]"

definition strftime :: "datetime \<Rightarrow> string" where
  \<comment> \<open>\<open>strftime("%Y%m%d_%H%M%S")\<close>\<close>
  "strftime d =
     pad4 (year d) @ pad2 (month d) @ pad2 (day d) @ ''_'' @
     pad2 (hour d) @ pad2 (minute d) @ pad2 (second d)"

definition base_name :: "datetime \<Rightarrow> string" where
  \<comment> \<open>the name of the file inside the directory \<open>recordings\<close>\<close>
  "base_name d = ''audio_'' @ strftime d @ ''.wav''"

definition save_filename :: "datetime \<Rightarrow> string" where
  \<comment> \<open>\<open>f"recordings/audio_{timestamp}.wav"\<close>\<close>
  "save_filename d = ''recordings/'' @ base_name d"

definition seconds_key :: "datetime \<Rightarrow> nat list" where
  \<comment> \<open>the timestamp to the second; chronological order is the lexicographic order of the key\<close>
  "seconds_key d = [year d, month d, day d, hour d, minute d, second d]"

subsection \<open>Files\<close>

type_synonym sample = real
type_synonym audio = "sample list"
type_synonym wav = "audio \<times> nat"
type_synonym disk = "(string \<times> wav) list"

datatype exn =
    PortAudioError | StorageError | TranscriptionError | APIError
  | SyntaxError | NameError | KeyError string | TypeError | AttributeError | RenderError
  | ZeroDivisionError

definition sf_write :: "disk \<Rightarrow> string \<Rightarrow> wav \<Rightarrow> disk" where
  \<comment> \<open>\<open>soundfile.write\<close> creates the file or replaces its content\<close>
  "sf_write fs name w = (name, w) # filter (\<lambda>(n, _). n \<noteq> name) fs"

definition save_audio :: "datetime \<Rightarrow> bool \<Rightarrow> disk \<Rightarrow> audio \<Rightarrow> nat \<Rightarrow> exn + (disk \<times> string)" where
  \<comment> \<open>\<open>now\<close> is \<open>datetime.now()\<close>; \<open>ok\<close> tells whether \<open>sf.write\<close> succeeds, and its exception
      is raised again after logging\<close>
  "save_audio now ok fs recording samplerate =
     (let filename = save_filename now
      in if ok then Inr (sf_write fs filename (recording, samplerate), filename)
         else Inl StorageError)"

definition os_listdir :: "disk \<Rightarrow> string \<Rightarrow> string list" where
  \<comment> \<open>the names in directory \<open>dir\<close>, in the order of the directory\<close>
  "os_listdir fs dir =
     map (\<lambda>p. drop (length dir + 1) p) (filter (\<lambda>p. prefix (dir @ ''/'') p) (map fst fs))"

definition saved_recordings :: "string list \<Rightarrow> string list" where
  \<comment> \<open>\<open>[f for f in names if f.endswith(".wav")]\<close>, then \<open>sort(reverse=True)\<close>\<close>
  "saved_recordings names = rev (sort (filter (\<lambda>f. suffix ''.wav'' f) names))"

section \<open>Python values\<close>

text \<open>
  The value that \<open>eval\<close> returns for the analyzer's reply is dynamically typed. Dictionaries
  are association lists with string keys; a lookup takes the first entry of a key.
\<close>

datatype pyval =
    PyNone | PyBool bool | PyInt int | PyStr string
  | PyList "pyval list" | PyDict "(string \<times> pyval) list"

definition and_then :: "'e + 'a \<Rightarrow> ('a \<Rightarrow> 'e + 'b) \<Rightarrow> 'e + 'b" where
  \<comment> \<open>sequencing of two steps, the first exception ends the computation\<close>
  "and_then m f = (case m of Inl x \<Rightarrow> Inl x | Inr a \<Rightarrow> f a)"

fun map_all :: "('a \<Rightarrow> 'e + 'b) \<Rightarrow> 'a list \<Rightarrow> 'e + 'b list" where
  "map_all f [] = Inr []"
| "map_all f (x # xs) = and_then (f x) (\<lambda>y. and_then (map_all f xs) (\<lambda>ys. Inr (y # ys)))"

fun truthy :: "pyval \<Rightarrow> bool" where
  "truthy PyNone = False"
| "truthy (PyBool b) = b"
| "truthy (PyInt i) = (i \<noteq> 0)"
| "truthy (PyStr s) = (s \<noteq> [])"
| "truthy (PyList xs) = (xs \<noteq> [])"
| "truthy (PyDict kvs) = (kvs \<noteq> [])"

fun subscript :: "pyval \<Rightarrow> string \<Rightarrow> exn + pyval" where
  \<comment> \<open>\<open>v[k]\<close> for a string \<open>k\<close>\<close>
  "subscript (PyDict kvs) k = (case map_of kvs k of None \<Rightarrow> Inl (KeyError k) | Some v \<Rightarrow> Inr v)"
| "subscript _ k = Inl TypeError"

fun py_iter :: "pyval \<Rightarrow> exn + pyval list" where
  \<comment> \<open>the items a \<open>for\<close> loop over the value visits\<close>
  "py_iter (PyList xs) = Inr xs"
| "py_iter (PyStr s) = Inr (map (\<lambda>c. PyStr [c]) s)"
| "py_iter (PyDict kvs) = Inr (map (\<lambda>kv. PyStr (fst kv)) kvs)"
| "py_iter _ = Inl TypeError"

fun join_item :: "pyval \<Rightarrow> exn + string" where
  \<comment> \<open>\<open>str.join\<close> accepts only strings\<close>
  "join_item (PyStr s) = Inr s"
| "join_item _ = Inl TypeError"

fun str_attr :: "pyval \<Rightarrow> exn + string" where
  \<comment> \<open>the receiver of a \<open>str\<close> method such as \<open>lower\<close> or \<open>strip\<close>\<close>
  "str_attr (PyStr s) = Inr s"
| "str_attr _ = Inl AttributeError"

definition join_value :: "string \<Rightarrow> pyval \<Rightarrow> exn + string" where
  "join_value sep v =
     and_then (py_iter v) (\<lambda>xs. and_then (map_all join_item xs) (\<lambda>parts. Inr (py_join sep parts)))"

section \<open>Dashboard renderer\<close>

record row =
  col_task :: pyval
  col_assignee :: pyval
  col_deadline :: pyval
  col_priority :: pyval
  col_dependencies :: string

datatype ui =
    Title string | Text string | Info string | Success string | Warning string
  | Error string | ErrorExn string exn | Header string | Subheader string | Expander string
  | Write pyval | Markdown nat pyval | Dataframe "row list" "string list"
  | Mermaid string nat | Audio string

type_synonym page = "ui list \<times> exn option"

definition emit :: "ui list \<Rightarrow> page" where
  "emit us = (us, None)"

definition raise :: "exn \<Rightarrow> page" where
  "raise x = ([], Some x)"

definition seq :: "page \<Rightarrow> page \<Rightarrow> page" where
  \<comment> \<open>the second part runs only when the first raised nothing\<close>
  "seq p q = (case snd p of None \<Rightarrow> (fst p @ fst q, snd q) | Some x \<Rightarrow> p)"

definition of_result :: "exn + ui list \<Rightarrow> page" where
  "of_result r = (case r of Inl x \<Rightarrow> raise x | Inr us \<Rightarrow> emit us)"

definition nl :: char where
  "nl = CHR 0x0A"

definition colors :: "(string \<times> string) list" where
  "colors =
     [(''high'', ''background-color: #ffcccc''),
      (''medium'', ''background-color: #ffffcc''),
      (''low'', ''background-color: #ccffcc'')]"

definition color_priority :: "pyval \<Rightarrow> exn + string" where
  \<comment> \<open>\<open>colors.get(val.lower(), '')\<close>\<close>
  "color_priority val =
     and_then (str_attr val)
       (\<lambda>s. Inr (case map_of colors (py_lower s) of Some c \<Rightarrow> c | None \<Rightarrow> []))"

definition build_row :: "pyval \<Rightarrow> exn + row" where
  "build_row item =
     and_then (subscript item ''task'') (\<lambda>t.
     and_then (subscript item ''assignee'') (\<lambda>a.
     and_then (subscript item ''deadline'') (\<lambda>d.
     and_then (subscript item ''priority'') (\<lambda>p.
     and_then (subscript item ''dependencies'') (\<lambda>deps.
     and_then (join_value '', '' deps) (\<lambda>j.
       Inr \<lparr>col_task = t, col_assignee = a, col_deadline = d, col_priority = p,
            col_dependencies = j\<rparr>))))))"

definition summary_panel :: "pyval \<Rightarrow> page" where
  "summary_panel analysis =
     seq (emit [Expander ''Executive Summary''])
       (of_result (and_then (subscript analysis ''executive_summary'') (\<lambda>v. Inr [Write v])))"

definition decisions_panel :: "pyval \<Rightarrow> page" where
  \<comment> \<open>\<open>enumerate(analysis['key_decisions'], 1)\<close>\<close>
  "decisions_panel analysis =
     seq (emit [Expander ''Key Decisions''])
       (of_result (and_then (subscript analysis ''key_decisions'') (\<lambda>kd.
          and_then (py_iter kd) (\<lambda>ds.
            Inr (map (\<lambda>(idx, decision). Markdown idx decision) (List.enumerate 1 ds))))))"

definition action_items_table :: "pyval \<Rightarrow> page" where
  "action_items_table analysis =
     seq (emit [Subheader ''Action Items Tracker''])
       (of_result (and_then (subscript analysis ''action_items'') (\<lambda>ai.
          and_then (py_iter ai) (\<lambda>items.
          and_then (map_all build_row items) (\<lambda>action_items_df.
            if action_items_df \<noteq> []
            then and_then (map_all color_priority (map col_priority action_items_df))
                   (\<lambda>styles. Inr [Dataframe action_items_df styles])
            else Inr [])))))"

definition default_style :: string where
  "default_style =
     [nl] @ ''                    style default fill:#f9f,stroke:#333,stroke-width:2px'' @
     [nl] @ ''                    style default fill:#bbf,stroke:#333,stroke-width:2px'' @
     [nl] @ ''                ''"

definition fallback_diagram :: string where
  "fallback_diagram =
     [nl] @ ''            graph TD'' @
     [nl] @ ''                Start[Meeting Start] --> Topics[Key Topics Discussed]'' @
     [nl] @ ''                Topics --> Decisions{Key Decisions}'' @
     [nl] @ ''                Decisions --> Actions([Action Items])'' @
     [nl] @ ''                Actions --> Team((Team Members))'' @
     [nl] @ ''                '' @
     [nl] @ ''                style Start fill:#f9f'' @
     [nl] @ ''                style Decisions fill:#ff9999'' @
     [nl] @ ''                style Actions fill:#99ff99'' @
     [nl] @ ''                style Team fill:#9999ff'' @
     [nl] @ ''            ''"

definition diagram_legend :: string where
  "diagram_legend = ''Diagram Legend''"

definition normalize_diagram :: "string \<Rightarrow> string" where
  "normalize_diagram diagram_code =
     (let code1 = (if \<not> prefix ''graph'' (py_strip diagram_code)
                   then ''graph TD'' @ [nl] @ diagram_code else diagram_code)
      in if \<not> sublist ''style'' code1 then code1 @ default_style else code1)"

definition diagram_try :: "(string \<Rightarrow> bool) \<Rightarrow> pyval \<Rightarrow> exn + ui list" where
  \<comment> \<open>the body of the \<open>try\<close>; \<open>widget_ok\<close> tells whether \<open>st_mermaid\<close> renders a description\<close>
  "diagram_try widget_ok analysis =
     and_then (subscript analysis ''mermaid_diagram'') (\<lambda>v.
     and_then (str_attr v) (\<lambda>diagram_code.
       let code = normalize_diagram diagram_code
       in if widget_ok code then Inr [Mermaid code 600, Info diagram_legend]
          else Inl RenderError))"

definition diagram_panel :: "(string \<Rightarrow> bool) \<Rightarrow> pyval \<Rightarrow> page" where
  "diagram_panel widget_ok analysis =
     seq (emit [Subheader ''Meeting Flow Visualization'', Expander ''Meeting Flow Diagram''])
       (case diagram_try widget_ok analysis of
          Inr us \<Rightarrow> emit us
        | Inl x \<Rightarrow>
            seq (emit [Error ''Error rendering diagram. Using simplified version...''])
              (if widget_ok fallback_diagram then emit [Mermaid fallback_diagram 400]
               else raise RenderError))"

definition upper_panels :: "pyval \<Rightarrow> page" where
  \<comment> \<open>header, summary, decisions and action items: everything above the diagram\<close>
  "upper_panels analysis =
     seq (emit [Header ''Meeting Analysis Dashboard''])
       (seq (summary_panel analysis) (seq (decisions_panel analysis) (action_items_table analysis)))"

definition dashboard :: "(string \<Rightarrow> bool) \<Rightarrow> pyval \<Rightarrow> page" where
  "dashboard widget_ok analysis = seq (upper_panels analysis) (diagram_panel widget_ok analysis)"

section \<open>Session state and the two button handlers\<close>

text \<open>
  One run of the script is one user interaction: at most one of the two buttons reports a
  click. What the run reads from outside is collected in \<open>env\<close>: the clock, the sound
  device, the file system's verdict on a write, the speech model, the remote analyzer,
  Python's \<open>eval\<close> and the diagram widget. \<open>eval\<close> runs the reply as code in the globals
  of the script, where \<open>st.session_state\<close> is in scope: \<open>py_eval\<close> takes the session, returns
  a value or an exception, and returns the session as the evaluated code leaves it. What
  the evaluated code does outside the session is not part of the model.
  A Python \<open>float\<close> is a real number, and
  \<open>float_round\<close> is the rounding of the result of one float operation. The array returned by
  \<open>sd.rec\<close> is filled by the device while the script is idle; the model stores it with the
  content that the stop handler reads. The exceptions of the model are subclasses of
  \<open>Exception\<close>, so an \<open>except Exception\<close> catches each of them. Logging is left out, the
  OpenAI client and the speech model are taken as loaded, and the texts on the page are
  kept without their pictographs (the diagram legend is reduced to its heading).
\<close>

record session =
  is_recording :: bool
  recording_started :: bool
  start_time :: "real option"
  elapsed_time :: "real option"
  recorder :: "audio option"
  last_recording :: "string option"
  last_transcription :: "string option"
  last_analysis :: "pyval option"

definition initial_session :: session where
  \<comment> \<open>the keys that the script creates when they are missing; the \<open>last_\<close> keys are absent\<close>
  "initial_session =
     \<lparr>is_recording = False, recording_started = False, start_time = None,
      elapsed_time = None, recorder = None, last_recording = None,
      last_transcription = None, last_analysis = None\<rparr>"

record env =
  time_now :: real
  date_now :: datetime
  float_round :: "real \<Rightarrow> real"
  microphone :: "(nat \<Rightarrow> sample) option"
  write_ok :: bool
  transcribe :: "string \<Rightarrow> exn + string"
  chat_completion :: "string \<Rightarrow> exn + string"
  py_eval :: "string \<Rightarrow> session \<Rightarrow> (exn + pyval) \<times> session"
  st_mermaid_ok :: "string \<Rightarrow> bool"

datatype click = StartRecording | StopRecording | NoButton

record run =
  sess :: session
  files :: disk
  shown :: "ui list"
  crashed :: "exn option"

definition record_audio_stream :: "env \<Rightarrow> exn + audio" where
  \<comment> \<open>\<open>sd.rec(int(44100 * 3600), samplerate=44100, channels=1)\<close>; without a device it raises\<close>
  "record_audio_stream e =
     (case microphone e of
        None \<Rightarrow> Inl PortAudioError
      | Some signal \<Rightarrow> Inr (map signal [0..<44100 * 3600]))"

definition generate_meeting_summary :: "env \<Rightarrow> string \<Rightarrow> exn + string" where
  \<comment> \<open>one request to the remote model with the transcript in the prompt; the reply's text\<close>
  "generate_meeting_summary e transcript = chat_completion e transcript"

definition py_int :: "real \<Rightarrow> int" where
  \<comment> \<open>\<open>int(x)\<close> truncates towards zero\<close>
  "py_int x = (if 0 \<le> x then \<lfloor>x\<rfloor> else \<lceil>x\<rceil>)"

definition slice_to :: "'a list \<Rightarrow> int \<Rightarrow> 'a list" where
  \<comment> \<open>\<open>xs[:n]\<close>: a negative \<open>n\<close> counts from the end\<close>
  "slice_to xs n = (if 0 \<le> n then take (nat n) xs else take (nat (int (length xs) + n)) xs)"

definition start_handler :: "env \<Rightarrow> run \<Rightarrow> run" where
  "start_handler e r =
     (let s = sess r
      in if \<not> is_recording s
         then (let s1 = s\<lparr>is_recording := True, start_time := Some (time_now e),
                          recording_started := True\<rparr>
               in case record_audio_stream e of
                    Inl x \<Rightarrow> r\<lparr>sess := s1, crashed := Some x\<rparr>
                  | Inr buffer \<Rightarrow>
                      r\<lparr>sess := s1\<lparr>recorder := Some buffer\<rparr>,
                        shown := shown r @ [Info ''Recording... Click 'Stop Recording' when finished.'']\<rparr>)
         else r)"

definition analyze :: "env \<Rightarrow> string \<Rightarrow> session \<Rightarrow> session \<times> ui list" where
  \<comment> \<open>the \<open>try\<close> around the analyzer call and \<open>eval\<close>, with its \<open>except Exception\<close>\<close>
  "analyze e transcript s =
     (case generate_meeting_summary e transcript of
        Inl x \<Rightarrow> (s, [ErrorExn ''Error analyzing meeting content: '' x])
      | Inr analysis \<Rightarrow>
          (case py_eval e analysis s of
             (Inr analysis_dict, s') \<Rightarrow> (s'\<lparr>last_analysis := Some analysis_dict\<rparr>, [])
           | (Inl x, s') \<Rightarrow> (s', [ErrorExn ''Error analyzing meeting content: '' x])))"

definition stop_handler :: "env \<Rightarrow> run \<Rightarrow> run" where
  "stop_handler e r =
     (let s = sess r
      in if is_recording s
         then (case recorder s of
                 None \<Rightarrow> r\<lparr>shown := shown r @ [Error ''No recording in progress!'']\<rparr>
               | Some buffer \<Rightarrow>
                  (let s1 = s\<lparr>is_recording := False\<rparr>
                   in case start_time s of
                        None \<Rightarrow> r\<lparr>sess := s1, crashed := Some TypeError\<rparr>
                      | Some t0 \<Rightarrow>
                         (let elapsed = float_round e (time_now e - t0);
                              s2 = s1\<lparr>elapsed_time := Some elapsed\<rparr>;
                              recording = slice_to buffer (py_int (float_round e (elapsed * 44100)))
                          in case save_audio (date_now e) (write_ok e) (files r) recording 44100 of
                               Inl x \<Rightarrow> r\<lparr>sess := s2, crashed := Some x\<rparr>
                             | Inr (fs, audio_file) \<Rightarrow>
                                (let s3 = s2\<lparr>last_recording := Some audio_file\<rparr>;
                                     out1 = shown r @ [Success ''Recording saved!'']
                                 in case transcribe e audio_file of
                                      Inl x \<Rightarrow>
                                        r\<lparr>sess := s3, files := fs, shown := out1, crashed := Some x\<rparr>
                                    | Inr transcript \<Rightarrow>
                                       (let s4 = s3\<lparr>last_transcription := Some transcript\<rparr>;
                                            (s5, out2) = analyze e transcript s4
                                        in r\<lparr>sess := s5\<lparr>recorder := None\<rparr>, files := fs,
                                             shown := out1 @ out2 @ [Success ''Analysis complete!'']\<rparr>)))))
         else r)"

section \<open>The page below the buttons\<close>

definition transcript_panel :: "session \<Rightarrow> page" where
  "transcript_panel s =
     (case last_transcription s of
        Some t \<Rightarrow> if t \<noteq> [] then emit [Expander ''Meeting Transcript'', Text t] else emit []
      | None \<Rightarrow> emit [])"

definition analysis_panel :: "env \<Rightarrow> session \<Rightarrow> page" where
  "analysis_panel e s =
     (case last_analysis s of
        Some analysis \<Rightarrow> if truthy analysis then dashboard (st_mermaid_ok e) analysis else emit []
      | None \<Rightarrow> emit [])"

definition playback_panel :: "session \<Rightarrow> page" where
  "playback_panel s =
     (case last_recording s of
        Some f \<Rightarrow> emit [Header ''Playback'', Audio f]
      | None \<Rightarrow> emit [])"

definition recordings_panel :: "disk \<Rightarrow> page" where
  "recordings_panel fs =
     emit (Expander ''Saved Recordings'' #
           concat (map (\<lambda>recording. [Audio (''recordings/'' @ recording), Text recording])
                     (saved_recordings (os_listdir fs ''recordings''))))"

definition display :: "env \<Rightarrow> session \<Rightarrow> disk \<Rightarrow> page" where
  "display e s fs =
     seq (emit (if is_recording s then [Warning ''Recording in progress...''] else []))
       (seq (transcript_panel s)
          (seq (analysis_panel e s) (seq (playback_panel s) (recordings_panel fs))))"

definition script :: "env \<Rightarrow> click \<Rightarrow> session \<times> disk \<Rightarrow> run" where
  \<comment> \<open>one run of the script; an exception that nothing catches ends the run, and the
      session keeps what was stored before it\<close>
  "script e c w =
     (let r0 = \<lparr>sess = fst w, files = snd w,
                shown = [Title ''Smart Meeting Recorder & Analyzer'',
                         Text ''Record your meeting and get AI-powered insights!''],
                crashed = None\<rparr>;
          r1 = (if c = StartRecording then start_handler e r0 else r0);
          r2 = (if crashed r1 = None \<and> c = StopRecording then stop_handler e r1 else r1)
      in if crashed r2 = None
         then (let p = display e (sess r2) (files r2)
               in r2\<lparr>shown := shown r2 @ fst p, crashed := snd p\<rparr>)
         else r2)"

fun interact :: "(env \<times> click) list \<Rightarrow> session \<times> disk \<Rightarrow> session \<times> disk" where
  \<comment> \<open>a sequence of runs of one session\<close>
  "interact [] w = w"
| "interact ((e, c) # rest) w = (let r = script e c w in interact rest (sess r, files r))"

section \<open>The shape of an analysis\<close>

text \<open>
  The structure that the prompt of \<open>generate_meeting_summary\<close> asks the remote model for:
  an object with a summary, a list of action items (task, assignee, deadline, priority and a
  list of dependencies), a list of decisions and a diagram description.
\<close>

fun is_str :: "pyval \<Rightarrow> bool" where
  "is_str (PyStr s) = True"
| "is_str _ = False"

fun is_list_of :: "(pyval \<Rightarrow> bool) \<Rightarrow> pyval \<Rightarrow> bool" where
  "is_list_of P (PyList xs) = list_all P xs"
| "is_list_of P _ = False"

definition has_field :: "pyval \<Rightarrow> string \<Rightarrow> (pyval \<Rightarrow> bool) \<Rightarrow> bool" where
  "has_field v k P = (case subscript v k of Inr x \<Rightarrow> P x | Inl _ \<Rightarrow> False)"

definition item_shape :: "pyval \<Rightarrow> bool" where
  "item_shape item =
     (has_field item ''task'' is_str \<and> has_field item ''assignee'' is_str \<and>
      has_field item ''deadline'' is_str \<and> has_field item ''priority'' is_str \<and>
      has_field item ''dependencies'' (is_list_of is_str))"

definition analysis_shape :: "pyval \<Rightarrow> bool" where
  "analysis_shape analysis =
     (has_field analysis ''executive_summary'' is_str \<and>
      has_field analysis ''action_items'' (is_list_of item_shape) \<and>
      has_field analysis ''key_decisions'' (is_list_of is_str) \<and>
      has_field analysis ''mermaid_diagram'' is_str)"

definition table_row_counts :: "ui list \<Rightarrow> nat list" where
  \<comment> \<open>the number of rows of every table on a page, in page order\<close>
  "table_row_counts us =
     concat (map (\<lambda>u. case u of Dataframe rows styles \<Rightarrow> [length rows] | _ \<Rightarrow> []) us)"

definition example_analysis :: pyval where
  "example_analysis =
     PyDict
       [(''executive_summary'', PyStr ''Launch plan agreed''),
        (''action_items'',
           PyList
             [PyDict [(''task'', PyStr ''Draft the campaign''), (''assignee'', PyStr ''Sam''),
                      (''deadline'', PyStr ''Tuesday''), (''priority'', PyStr ''High''),
                      (''dependencies'', PyList [PyStr ''budget'', PyStr ''artwork''])],
              PyDict [(''task'', PyStr ''Book the venue''), (''assignee'', PyStr ''Ana''),
                      (''deadline'', PyStr ''Friday''), (''priority'', PyStr ''urgent''),
                      (''dependencies'', PyList [])]]),
        (''key_decisions'', PyList [PyStr ''Launch in May'']),
        (''mermaid_diagram'', PyStr ''A[Start] --> B[Launch]'')]"

section \<open>Example sessions\<close>

text \<open>
  Concrete environments and sessions at which the theorems below are evaluated. The first
  recording starts at clock time 100 and is saved on 2026-03-02 at 03:04:05; the sound
  device delivers silence.
\<close>

definition example_reply :: string where
  \<open>example_reply = ''{"summary": 1}''\<close>

definition example_env :: env where
  "example_env =
     \<lparr>time_now = 100,
      date_now = \<lparr>year = 2026, month = 3, day = 2, hour = 3, minute = 4, second = 5, microsecond = 100\<rparr>,
      float_round = (\<lambda>x. x),
      microphone = Some (\<lambda>i. 0),
      write_ok = True,
      transcribe = (\<lambda>audio_file. Inr ''first meeting''),
      chat_completion = (\<lambda>transcript. Inr ''good reply''),
      py_eval = (\<lambda>text s. (if text = ''good reply'' then Inr example_analysis else Inl SyntaxError, s)),
      st_mermaid_ok = (\<lambda>code. True)\<rparr>"

definition no_device_env :: env where
  \<comment> \<open>no input device: \<open>sd.rec\<close> raises\<close>
  "no_device_env = example_env\<lparr>microphone := None\<rparr>"

definition stop_env :: env where
  "stop_env = example_env\<lparr>time_now := 102\<rparr>"

definition second_start_env :: env where
  "second_start_env =
     example_env\<lparr>time_now := 200,
       date_now := \<lparr>year = 2026, month = 3, day = 2, hour = 3, minute = 6, second = 0, microsecond = 0\<rparr>\<rparr>"

definition malformed_env :: env where
  "malformed_env =
     second_start_env\<lparr>time_now := 203,
       transcribe := (\<lambda>audio_file. Inr ''second meeting''),
       chat_completion := (\<lambda>transcript. Inr ''not json'')\<rparr>"

definition ill_shaped_env :: env where
  \<comment> \<open>the analyzer replies with a JSON object that has none of the expected keys, and
      \<open>eval\<close> reads it as a dictionary\<close>
  "ill_shaped_env =
     example_env\<lparr>time_now := 102,
       chat_completion := (\<lambda>transcript. Inr example_reply),
       py_eval := (\<lambda>text s. (if text = example_reply then Inr (PyDict [(''summary'', PyInt 1)])
                               else Inl SyntaxError, s))\<rparr>"

definition side_effect_env :: env where
  \<comment> \<open>a reply such as \<open>st.session_state.pop('last_analysis') and 1/0\<close>: the evaluated code
      removes the stored analysis and then raises\<close>
  "side_effect_env =
     malformed_env\<lparr>py_eval := (\<lambda>text s. (Inl ZeroDivisionError, s\<lparr>last_analysis := None\<rparr>))\<rparr>"

definition long_stop_env :: env where
  "long_stop_env = example_env\<lparr>time_now := 4100\<rparr>"

definition recording_session :: session where
  "recording_session =
     initial_session\<lparr>is_recording := True, recording_started := True, start_time := Some 100,
       recorder := Some (map (\<lambda>i. 0) [0..<44100 * 3600])\<rparr>"

definition stuck_session :: session where
  "stuck_session =
     initial_session\<lparr>is_recording := True, recording_started := True, start_time := Some 100\<rparr>"

definition second_recording_session :: session where
  "second_recording_session =
     recording_session\<lparr>start_time := Some 200, elapsed_time := Some 2,
       last_recording := Some ''recordings/audio_20260302_030405.wav'',
       last_transcription := Some ''first meeting'',
       last_analysis := Some example_analysis\<rparr>"

section \<open>The recording flag as the specification describes it\<close>

text \<open>
  The flag of the specification: a start action sets it, a stop action clears it, and any
  other run leaves it as it is.
\<close>

fun spec_is_recording :: "click list \<Rightarrow> bool \<Rightarrow> bool" where
  "spec_is_recording [] b = b"
| "spec_is_recording (StartRecording # cs) b = spec_is_recording cs True"
| "spec_is_recording (StopRecording # cs) b = spec_is_recording cs False"
| "spec_is_recording (NoButton # cs) b = spec_is_recording cs b"

section \<open>Properties of the recording store\<close>

subsection \<open>File names order as their timestamps\<close>

lemma of_char_digit_aux: "k < 10 \<Longrightarrow> of_char (''0123456789'' ! k) = (48 + k :: nat)"
proof -
  assume "k < 10"
  then have "k = 0 \<or> k = 1 \<or> k = 2 \<or> k = 3 \<or> k = 4 \<or> k = 5 \<or> k = 6 \<or> k = 7 \<or> k = 8 \<or> k = 9"
    by arith
  then show ?thesis by (elim disjE) simp_all
qed

lemma of_char_digit: "of_char (digit n) = (48 + n mod 10 :: nat)"
  unfolding digit_def by (rule of_char_digit_aux) simp

lemma digit_less: "digit a < digit b \<longleftrightarrow> a mod 10 < b mod 10"
  by (simp add: less_char_def of_char_digit)

lemma digit_eq: "digit a = digit b \<longleftrightarrow> a mod 10 = b mod 10"
proof
  assume "digit a = digit b"
  then have "(of_char (digit a) :: nat) = of_char (digit b)" by simp
  then show "a mod 10 = b mod 10" by (simp add: of_char_digit)
next
  assume "a mod 10 = b mod 10"
  then show "digit a = digit b" by (simp add: digit_def)
qed

lemma mod_100_div_10: "(n::nat) mod 100 div 10 = n div 10 mod 10"
proof -
  have "n mod (10 * 10) = 10 * (n div 10 mod 10) + n mod 10" by (rule mod_mult2_eq)
  then have "n mod 100 div 10 = (10 * (n div 10 mod 10) + n mod 10) div 10" by simp
  also have "\<dots> = n div 10 mod 10" by simp
  finally show ?thesis .
qed

lemma mod_100_mod_10: "(n::nat) mod 100 mod 10 = n mod 10"
  by (simp add: mod_mod_cancel)

lemma lex_div_mod:
  fixes a b k :: nat
  shows "(a div k < b div k \<or> (a div k = b div k \<and> a mod k < b mod k)) \<longleftrightarrow> a < b"
proof
  assume "a div k < b div k \<or> (a div k = b div k \<and> a mod k < b mod k)"
  then show "a < b"
  proof
    assume "a div k < b div k"
    then have "\<not> b \<le> a" using div_le_mono[of b a k] by linarith
    then show ?thesis by simp
  next
    assume h: "a div k = b div k \<and> a mod k < b mod k"
    from h have e: "a div k = b div k" and l: "a mod k < b mod k" by simp_all
    have "a = k * (a div k) + a mod k" by simp
    also have "\<dots> < k * (a div k) + b mod k" using l by (rule add_strict_left_mono)
    also have "\<dots> = k * (b div k) + b mod k" by (simp only: e)
    also have "\<dots> = b" by simp
    finally show ?thesis .
  qed
next
  assume lt: "a < b"
  then have le: "a div k \<le> b div k" by (simp add: div_le_mono)
  show "a div k < b div k \<or> (a div k = b div k \<and> a mod k < b mod k)"
  proof (cases "a div k = b div k")
    case True
    have "k * (a div k) + a mod k < k * (b div k) + b mod k"
      using lt by (simp only: mult_div_mod_eq)
    then have "k * (a div k) + a mod k < k * (a div k) + b mod k" by (simp only: True)
    then have "a mod k < b mod k" by (simp only: nat_add_left_cancel_less)
    with True show ?thesis by simp
  next
    case False
    with le show ?thesis by simp
  qed
qed

lemma eq_div_mod:
  fixes a b k :: nat
  shows "(a div k = b div k \<and> a mod k = b mod k) \<longleftrightarrow> a = b"
  by (metis mult_div_mod_eq)

lemma pad2_less:
  assumes "a < 100" "b < 100"
  shows "pad2 a @ r < pad2 b @ s \<longleftrightarrow> a < b \<or> (a = b \<and> r < s)"
proof -
  have d: "a div 10 mod 10 = a div 10" "b div 10 mod 10 = b div 10" using assms by simp_all
  have "pad2 a @ r < pad2 b @ s \<longleftrightarrow>
     (a div 10 < b div 10 \<or> (a div 10 = b div 10 \<and> a mod 10 < b mod 10)) \<or>
     ((a div 10 = b div 10 \<and> a mod 10 = b mod 10) \<and> r < s)"
    unfolding pad2_def by (simp add: digit_less digit_eq d) blast
  then show ?thesis unfolding lex_div_mod eq_div_mod .
qed

lemma pad4_split: "pad4 n = pad2 (n div 100) @ pad2 (n mod 100)"
proof -
  have "n div 100 div 10 = n div 1000" by (simp add: div_mult2_eq)
  then show ?thesis by (simp add: pad4_def pad2_def digit_def mod_100_div_10 mod_100_mod_10)
qed

lemma pad4_less:
  assumes "a < 10000" "b < 10000"
  shows "pad4 a @ r < pad4 b @ s \<longleftrightarrow> a < b \<or> (a = b \<and> r < s)"
proof -
  have 1: "a div 100 < 100" "b div 100 < 100" using assms by simp_all
  have 2: "a mod 100 < 100" "b mod 100 < 100" by simp_all
  have "pad4 a @ r < pad4 b @ s \<longleftrightarrow>
     (a div 100 < b div 100 \<or> (a div 100 = b div 100 \<and> a mod 100 < b mod 100)) \<or>
     ((a div 100 = b div 100 \<and> a mod 100 = b mod 100) \<and> r < s)"
    by (simp add: pad4_split pad2_less[OF 1] pad2_less[OF 2]) blast
  then show ?thesis unfolding lex_div_mod eq_div_mod .
qed

lemma strftime_less:
  assumes "valid_datetime a" "valid_datetime b"
  shows "strftime a @ r < strftime b @ s \<longleftrightarrow>
         seconds_key a < seconds_key b \<or> (seconds_key a = seconds_key b \<and> r < s)"
  using assms unfolding strftime_def seconds_key_def valid_datetime_def
  by (simp add: pad4_less pad2_less) blast

lemma base_name_less:
  assumes "valid_datetime a" "valid_datetime b"
  shows "base_name a < base_name b \<longleftrightarrow> seconds_key a < seconds_key b"
  unfolding base_name_def by (simp add: strftime_less[OF assms])

lemma base_name_eq:
  assumes "valid_datetime a" "valid_datetime b"
  shows "base_name a = base_name b \<longleftrightarrow> seconds_key a = seconds_key b"
proof -
  have "base_name a = base_name b \<longleftrightarrow> \<not> base_name a < base_name b \<and> \<not> base_name b < base_name a"
    by auto
  also have "\<dots> \<longleftrightarrow> \<not> seconds_key a < seconds_key b \<and> \<not> seconds_key b < seconds_key a"
    by (simp add: base_name_less assms)
  also have "\<dots> \<longleftrightarrow> seconds_key a = seconds_key b" by auto
  finally show ?thesis .
qed

text \<open>
  Claim C6. The enumeration of the saved recordings returns all of them, ordered strictly
  newest first by the timestamp in the file name. The directory listing \<open>names\<close> comes in
  any order and may hold files that do not end in \<open>.wav\<close>; its \<open>.wav\<close> entries are the files
  that \<open>save_audio\<close> wrote at the timestamps \<open>ds\<close>, no two of them in the same second. The
  result lists exactly these files, each once, and every entry is strictly newer than all
  entries after it.
\<close>

theorem saved_recordings_newest_first:
  assumes valid: "\<forall>d\<in>set ds. valid_datetime d"
      and keys: "distinct (map seconds_key ds)"
      and names: "distinct names"
      and wavs: "set (filter (\<lambda>f. suffix ''.wav'' f) names) = base_name ` set ds"
  shows "\<exists>ts. saved_recordings names = map base_name ts \<and> set ts = set ds \<and> distinct ts \<and>
           sorted_wrt (\<lambda>a b. seconds_key b < seconds_key a) ts"
proof -
  let ?W = "filter (\<lambda>f. suffix ''.wav'' f) names"
  let ?us = "sort_key seconds_key ds"
  have dds: "distinct ds" and inj_key: "inj_on seconds_key (set ds)"
    using keys by (simp_all add: distinct_map)
  have inj_name: "inj_on base_name (set ds)"
    using valid inj_key by (auto simp: inj_on_def base_name_eq)
  have le: "base_name a \<le> base_name b" if "a \<in> set ?us" "b \<in> set ?us" "seconds_key a \<le> seconds_key b" for a b
  proof -
    from that valid have v: "valid_datetime a" "valid_datetime b" by simp_all
    from that(3) have "seconds_key a < seconds_key b \<or> seconds_key a = seconds_key b" by auto
    then show ?thesis using base_name_less[OF v] base_name_eq[OF v] by auto
  qed
  have "sorted (map seconds_key ?us)" by (rule sorted_sort_key)
  then have "sorted_wrt (\<lambda>a b. seconds_key a \<le> seconds_key b) ?us" by (simp add: sorted_wrt_map)
  then have "sorted_wrt (\<lambda>a b. base_name a \<le> base_name b) ?us"
    by (rule sorted_wrt_mono_rel[rotated]) (rule le)
  then have s2: "sorted (map base_name ?us)" by (simp add: sorted_wrt_map)
  have d2: "distinct (map base_name ?us)" using dds inj_name by (simp add: distinct_map)
  have "set (sort ?W) = set (map base_name ?us)" using wavs by simp
  moreover have "distinct (sort ?W)" using names by simp
  moreover have "sorted (sort ?W)" by simp
  ultimately have eq: "sort ?W = map base_name ?us"
    using s2 d2 by (auto intro: sorted_distinct_set_unique)
  have dk: "distinct (map seconds_key ?us)" using dds inj_key by (simp add: distinct_map)
  have "sorted_wrt (<) (map seconds_key ?us)"
    unfolding strict_sorted_iff using dk by simp
  then have "sorted_wrt (\<lambda>a b. seconds_key a < seconds_key b) ?us" by (simp add: sorted_wrt_map)
  then have "sorted_wrt (\<lambda>a b. seconds_key b < seconds_key a) (rev ?us)" by (simp add: sorted_wrt_rev)
  moreover have "saved_recordings names = map base_name (rev ?us)"
    by (simp add: saved_recordings_def eq rev_map)
  moreover have "set (rev ?us) = set ds" "distinct (rev ?us)" using dds by simp_all
  ultimately show ?thesis by blast
qed

theorem saved_recordings_newest_first_witness:
  "\<exists>ts. saved_recordings
          [''audio_20240101_101500.wav'', ''notes.txt'', ''audio_20260102_030405.wav'',
           ''audio_20250615_235959.wav'']
        = map base_name ts \<and>
      set ts = set [\<lparr>year = 2024, month = 1, day = 1, hour = 10, minute = 15, second = 0, microsecond = 7\<rparr>,
                    \<lparr>year = 2026, month = 1, day = 2, hour = 3, minute = 4, second = 5, microsecond = 100\<rparr>,
                    \<lparr>year = 2025, month = 6, day = 15, hour = 23, minute = 59, second = 59, microsecond = 0\<rparr>] \<and>
      distinct ts \<and> sorted_wrt (\<lambda>a b. seconds_key b < seconds_key a) ts"
  by (rule saved_recordings_newest_first)
     (simp_all add: valid_datetime_def seconds_key_def base_name_def strftime_def pad4_def
        pad2_def digit_def suffix_to_prefix)

subsection \<open>Saving twice\<close>

text \<open>
  Claim C2, as stated, fails: two saves within one second (here at microsecond 100 and at
  microsecond 900000 of 2026-01-02 03:04:05) get the same file name, and after the second
  save the store holds the second recording only.
\<close>

theorem save_same_second_overwrites:
  "save_audio \<lparr>year = 2026, month = 1, day = 2, hour = 3, minute = 4, second = 5, microsecond = 100\<rparr>
      True [] [1] 44100
     = Inr ([(''recordings/audio_20260102_030405.wav'', ([1], 44100))],
            ''recordings/audio_20260102_030405.wav'') \<and>
   save_audio \<lparr>year = 2026, month = 1, day = 2, hour = 3, minute = 4, second = 5, microsecond = 900000\<rparr>
      True [(''recordings/audio_20260102_030405.wav'', ([1], 44100))] [2] 44100
     = Inr ([(''recordings/audio_20260102_030405.wav'', ([2], 44100))],
            ''recordings/audio_20260102_030405.wav'')"
  by (simp add: save_audio_def sf_write_def save_filename_def base_name_def strftime_def
        pad4_def pad2_def digit_def Let_def)

text \<open>
  Claim C2, amended. Two saves whose timestamps differ in their seconds get distinct file
  names, and after the later save both recordings are in the store.
\<close>

theorem save_distinct_seconds:
  assumes "valid_datetime d1" and "valid_datetime d2" and "seconds_key d1 \<noteq> seconds_key d2"
      and "save_audio d1 ok1 fs rec1 sr1 = Inr (fs1, f1)"
      and "save_audio d2 ok2 fs1 rec2 sr2 = Inr (fs2, f2)"
  shows "f1 \<noteq> f2 \<and> map_of fs2 f1 = Some (rec1, sr1) \<and> map_of fs2 f2 = Some (rec2, sr2)"
proof -
  have ne: "save_filename d1 \<noteq> save_filename d2"
    using assms(1-3) by (simp add: save_filename_def base_name_eq)
  have m: "map_of (filter (\<lambda>(n, _). n \<noteq> k) xs) k' = map_of xs k'" if "k' \<noteq> k" for k k' :: string and xs :: disk
    using that by (induction xs) auto
  from assms(4) have 1: "f1 = save_filename d1" "fs1 = sf_write fs f1 (rec1, sr1)"
    by (auto simp: save_audio_def Let_def split: if_splits)
  from assms(5) have 2: "f2 = save_filename d2" "fs2 = sf_write fs1 f2 (rec2, sr2)"
    by (auto simp: save_audio_def Let_def split: if_splits)
  show ?thesis using ne by (simp add: 1 2 sf_write_def m)
qed

theorem save_distinct_seconds_witness:
  "''recordings/audio_20260102_030405.wav'' \<noteq> ''recordings/audio_20260102_030406.wav'' \<and>
   map_of [(''recordings/audio_20260102_030406.wav'', ([2], 44100)),
           (''recordings/audio_20260102_030405.wav'', ([1], 44100))]
     ''recordings/audio_20260102_030405.wav'' = Some ([1 :: real], 44100 :: nat) \<and>
   map_of [(''recordings/audio_20260102_030406.wav'', ([2], 44100)),
           (''recordings/audio_20260102_030405.wav'', ([1], 44100))]
     ''recordings/audio_20260102_030406.wav'' = Some ([2 :: real], 44100 :: nat)"
  by (rule save_distinct_seconds
        [of "\<lparr>year = 2026, month = 1, day = 2, hour = 3, minute = 4, second = 5, microsecond = 100\<rparr>"
            "\<lparr>year = 2026, month = 1, day = 2, hour = 3, minute = 4, second = 6, microsecond = 100\<rparr>"
            True "[]" "[1]" 44100
            "[(''recordings/audio_20260102_030405.wav'', ([1], 44100))]"
            "''recordings/audio_20260102_030405.wav''" True "[2]" 44100])
     (simp_all add: valid_datetime_def seconds_key_def save_audio_def sf_write_def save_filename_def
        base_name_def strftime_def pad4_def pad2_def digit_def Let_def)

section \<open>Properties of the dashboard\<close>

subsection \<open>Well-shaped analyses render\<close>

lemma has_fieldD: "has_field v k P \<Longrightarrow> \<exists>x. subscript v k = Inr x \<and> P x"
  by (auto simp: has_field_def split: sum.splits)

lemma is_strD: "is_str v \<Longrightarrow> \<exists>s. v = PyStr s"
  by (cases v) auto

lemma is_list_ofD: "is_list_of P v \<Longrightarrow> \<exists>xs. v = PyList xs \<and> list_all P xs"
  by (cases v) auto

lemma map_all_length: "map_all f xs = Inr ys \<Longrightarrow> length ys = length xs"
  by (induction xs arbitrary: ys) (auto simp: and_then_def split: sum.splits)

lemma map_all_Inr:
  "(\<And>x. x \<in> set xs \<Longrightarrow> f x = Inr (g x)) \<Longrightarrow> map_all f xs = Inr (map g xs)"
  by (induction xs) (auto simp: and_then_def)

lemma join_value_strs:
  assumes "is_list_of is_str deps"
  shows "\<exists>j. join_value sep deps = Inr j"
proof -
  from assms obtain xs where xs: "deps = PyList xs" "list_all is_str xs" by (auto dest: is_list_ofD)
  have "map_all join_item xs = Inr (map (\<lambda>v. case v of PyStr s \<Rightarrow> s | _ \<Rightarrow> []) xs)"
    using xs(2) by (intro map_all_Inr) (auto simp: list_all_iff dest!: is_strD)
  then show ?thesis by (simp add: join_value_def xs(1) and_then_def)
qed

lemma build_row_shape:
  assumes "item_shape item"
  shows "\<exists>r p. build_row item = Inr r \<and> col_priority r = PyStr p"
proof -
  from assms obtain t a d p deps where
    "subscript item ''task'' = Inr t" "subscript item ''assignee'' = Inr a"
    "subscript item ''deadline'' = Inr d" "subscript item ''priority'' = Inr p" "is_str p"
    "subscript item ''dependencies'' = Inr deps" "is_list_of is_str deps"
    unfolding item_shape_def by (blast dest: has_fieldD)
  moreover from this obtain j where "join_value '', '' deps = Inr j" by (blast dest: join_value_strs)
  moreover from \<open>is_str p\<close> obtain s where "p = PyStr s" by (blast dest: is_strD)
  ultimately show ?thesis by (simp add: build_row_def and_then_def)
qed

lemma color_priority_str:
  "color_priority (PyStr val) = Inr (case map_of colors (py_lower val) of Some c \<Rightarrow> c | None \<Rightarrow> [])"
  by (simp add: color_priority_def and_then_def)

lemma rows_of_items:
  assumes "list_all item_shape items"
  shows "\<exists>rows styles. map_all build_row items = Inr rows \<and> length rows = length items \<and>
           map_all color_priority (map col_priority rows) = Inr styles"
using assms proof (induction items)
  case Nil
  then show ?case by simp
next
  case (Cons item items)
  from Cons.prems have shapes: "item_shape item" "list_all item_shape items" by simp_all
  with Cons.IH obtain rows styles where ih: "map_all build_row items = Inr rows" "length rows = length items"
     "map_all color_priority (map col_priority rows) = Inr styles" by blast
  from build_row_shape[OF shapes(1)] obtain r p where r: "build_row item = Inr r" "col_priority r = PyStr p"
    by blast
  show ?case using ih r by (simp add: and_then_def color_priority_str)
qed

lemma action_items_table_shape:
  assumes "subscript analysis ''action_items'' = Inr (PyList items)" "list_all item_shape items"
  shows "snd (action_items_table analysis) = None \<and>
         table_row_counts (fst (action_items_table analysis)) = (if items = [] then [] else [length items])"
proof -
  from rows_of_items[OF assms(2)] obtain rows styles where
    rs: "map_all build_row items = Inr rows" "length rows = length items"
        "map_all color_priority (map col_priority rows) = Inr styles" by blast
  have "rows = [] \<longleftrightarrow> items = []" using rs(2) by auto
  then show ?thesis
    by (auto simp: action_items_table_def assms(1) rs and_then_def of_result_def seq_def emit_def
        table_row_counts_def)
qed

lemma fst_emit: "fst (emit us) = us" and snd_emit: "snd (emit us) = None"
  by (simp_all add: emit_def)

lemma seq_ok: "snd p = None \<Longrightarrow> seq p q = (fst p @ fst q, snd q)"
  by (simp add: seq_def)

lemma table_row_counts_append:
  "table_row_counts (xs @ ys) = table_row_counts xs @ table_row_counts ys"
  by (simp add: table_row_counts_def)

lemma table_row_counts_Cons:
  "table_row_counts (u # us) =
     (case u of Dataframe rows styles \<Rightarrow> [length rows] | _ \<Rightarrow> []) @ table_row_counts us"
  by (simp add: table_row_counts_def)

lemma table_row_counts_Nil: "table_row_counts [] = []"
  by (simp add: table_row_counts_def)

lemma table_row_counts_decisions:
  "table_row_counts (map (\<lambda>(idx, decision). Markdown idx decision) xs) = []"
  by (induction xs) (auto simp: table_row_counts_def)

lemma summary_panel_shape:
  assumes "has_field analysis ''executive_summary'' is_str"
  shows "snd (summary_panel analysis) = None \<and> table_row_counts (fst (summary_panel analysis)) = []"
proof -
  from assms obtain v where "subscript analysis ''executive_summary'' = Inr v"
    by (blast dest: has_fieldD)
  then show ?thesis
    by (simp add: summary_panel_def and_then_def of_result_def seq_def emit_def table_row_counts_def)
qed

lemma decisions_panel_shape:
  assumes "has_field analysis ''key_decisions'' (is_list_of is_str)"
  shows "snd (decisions_panel analysis) = None \<and> table_row_counts (fst (decisions_panel analysis)) = []"
proof -
  from assms obtain ds where "subscript analysis ''key_decisions'' = Inr (PyList ds)"
    by (blast dest: has_fieldD is_list_ofD)
  then show ?thesis
    by (simp add: decisions_panel_def and_then_def of_result_def seq_def emit_def
          table_row_counts_Cons table_row_counts_decisions)
qed

lemma upper_panels_shape:
  assumes "analysis_shape analysis" and "subscript analysis ''action_items'' = Inr (PyList items)"
  shows "snd (upper_panels analysis) = None \<and>
         table_row_counts (fst (upper_panels analysis)) = (if items = [] then [] else [length items])"
proof -
  from assms have "list_all item_shape items"
    by (auto simp: analysis_shape_def has_field_def)
  note t = action_items_table_shape[OF assms(2) this]
  from assms(1) have s: "snd (summary_panel analysis) = None \<and> table_row_counts (fst (summary_panel analysis)) = []"
    and d: "snd (decisions_panel analysis) = None \<and> table_row_counts (fst (decisions_panel analysis)) = []"
    by (simp_all add: analysis_shape_def summary_panel_shape decisions_panel_shape)
  show ?thesis
    unfolding upper_panels_def
    by (simp add: seq_ok snd_emit fst_emit s d t table_row_counts_append table_row_counts_Cons
          table_row_counts_Nil)
qed

lemma upper_panels_ok:
  assumes "analysis_shape analysis"
  shows "snd (upper_panels analysis) = None"
proof -
  from assms obtain items where "subscript analysis ''action_items'' = Inr (PyList items)"
    unfolding analysis_shape_def by (blast dest: has_fieldD is_list_ofD)
  with assms show ?thesis by (simp add: upper_panels_shape)
qed

lemma diagram_panel_no_table: "table_row_counts (fst (diagram_panel widget_ok analysis)) = []"
  by (auto simp: diagram_panel_def diagram_try_def and_then_def seq_def emit_def raise_def Let_def
        table_row_counts_def split: sum.splits)

subsection \<open>Action items and priority colours\<close>

text \<open>
  Claim C8, as stated, fails in its last part: \<open>HIGH\<close> is a priority string other than
  \<open>high\<close>, \<open>medium\<close> and \<open>low\<close>, and it is highlighted, because \<open>color_priority\<close> looks the
  lower-cased value up.
\<close>

theorem color_priority_uppercase_highlighted:
  "''HIGH'' \<notin> {''high'', ''medium'', ''low''} \<and>
   color_priority (PyStr ''HIGH'') = Inr ''background-color: #ffcccc''"
  by (simp add: color_priority_def and_then_def colors_def py_lower_def py_lower_char_def char_of_def bit_Suc_0_iff)

text \<open>
  Claim C8, amended. For an analysis of the expected shape the page shows one action-items
  table with as many rows as the \<open>action_items\<close> array has entries (and no table when the
  array is empty). The highlight of every priority string is the colour that its
  lower-cased form selects: one fixed colour each for \<open>high\<close>, \<open>medium\<close> and \<open>low\<close>, in any
  mix of upper and lower case such as \<open>High\<close>, \<open>MEDIUM\<close> or \<open>Low\<close>, and the empty style when
  the lower-cased form is none of the three. No string raises.
\<close>

theorem action_items_rows_and_priority_colors:
  assumes "analysis_shape analysis" and "subscript analysis ''action_items'' = Inr (PyList items)"
  shows "table_row_counts (fst (dashboard widget_ok analysis))
           = (if items = [] then [] else [length items]) \<and>
         color_priority (PyStr ''high'') = Inr ''background-color: #ffcccc'' \<and>
         color_priority (PyStr ''medium'') = Inr ''background-color: #ffffcc'' \<and>
         color_priority (PyStr ''low'') = Inr ''background-color: #ccffcc'' \<and>
         (py_lower val \<notin> {''high'', ''medium'', ''low''} \<longrightarrow> color_priority (PyStr val) = Inr []) \<and>
         color_priority (PyStr val) =
           Inr (if py_lower val = ''high'' then ''background-color: #ffcccc''
                else if py_lower val = ''medium'' then ''background-color: #ffffcc''
                else if py_lower val = ''low'' then ''background-color: #ccffcc''
                else []) \<and>
         color_priority (PyStr ''High'') = Inr ''background-color: #ffcccc'' \<and>
         color_priority (PyStr ''MEDIUM'') = Inr ''background-color: #ffffcc'' \<and>
         color_priority (PyStr ''Low'') = Inr ''background-color: #ccffcc''"
proof -
  have "table_row_counts (fst (dashboard widget_ok analysis))
           = (if items = [] then [] else [length items])"
    using upper_panels_shape[OF assms]
    by (simp add: dashboard_def seq_ok table_row_counts_append diagram_panel_no_table)
  moreover have "py_lower ''high'' = ''high''" "py_lower ''medium'' = ''medium''" "py_lower ''low'' = ''low''"
    by (simp_all add: py_lower_def py_lower_char_def)
  then have "color_priority (PyStr ''high'') = Inr ''background-color: #ffcccc''"
    "color_priority (PyStr ''medium'') = Inr ''background-color: #ffffcc''"
    "color_priority (PyStr ''low'') = Inr ''background-color: #ccffcc''"
    by (simp_all add: color_priority_str colors_def)
  moreover have "py_lower val \<notin> {''high'', ''medium'', ''low''} \<longrightarrow> color_priority (PyStr val) = Inr []"
    by (simp add: color_priority_str colors_def)
  moreover have "color_priority (PyStr val) =
           Inr (if py_lower val = ''high'' then ''background-color: #ffcccc''
                else if py_lower val = ''medium'' then ''background-color: #ffffcc''
                else if py_lower val = ''low'' then ''background-color: #ccffcc''
                else [])"
    by (simp add: color_priority_str colors_def)
  moreover have "py_lower ''High'' = ''high''" "py_lower ''MEDIUM'' = ''medium''" "py_lower ''Low'' = ''low''"
    by (simp_all add: py_lower_def py_lower_char_def char_of_def bit_Suc_0_iff)
  then have "color_priority (PyStr ''High'') = Inr ''background-color: #ffcccc''"
    "color_priority (PyStr ''MEDIUM'') = Inr ''background-color: #ffffcc''"
    "color_priority (PyStr ''Low'') = Inr ''background-color: #ccffcc''"
    by (simp_all add: color_priority_str colors_def)
  ultimately show ?thesis by blast
qed

theorem action_items_rows_and_priority_colors_witness:
  "table_row_counts (fst (dashboard (\<lambda>code. True) example_analysis)) = [2] \<and>
   color_priority (PyStr ''urgent'') = Inr [] \<and>
   color_priority (PyStr ''hIgH'') = Inr ''background-color: #ffcccc''"
proof -
  have 1: "analysis_shape example_analysis"
    by (simp add: analysis_shape_def example_analysis_def has_field_def item_shape_def)
  have 2: "subscript example_analysis ''action_items'' =
     Inr (PyList
             [PyDict [(''task'', PyStr ''Draft the campaign''), (''assignee'', PyStr ''Sam''),
                      (''deadline'', PyStr ''Tuesday''), (''priority'', PyStr ''High''),
                      (''dependencies'', PyList [PyStr ''budget'', PyStr ''artwork''])],
              PyDict [(''task'', PyStr ''Book the venue''), (''assignee'', PyStr ''Ana''),
                      (''deadline'', PyStr ''Friday''), (''priority'', PyStr ''urgent''),
                      (''dependencies'', PyList [])]])"
    by (simp add: example_analysis_def)
  have 3: "py_lower ''urgent'' \<notin> {''high'', ''medium'', ''low''}"
    by (simp add: py_lower_def py_lower_char_def)
  have 4: "py_lower ''hIgH'' = ''high''"
    by (simp add: py_lower_def py_lower_char_def char_of_def bit_Suc_0_iff)
  show ?thesis
    using action_items_rows_and_priority_colors[OF 1 2, of "\<lambda>code. True" "''urgent''"]
          action_items_rows_and_priority_colors[OF 1 2, of "\<lambda>code. True" "''hIgH''"] 3 4 by simp
qed

subsection \<open>Diagram normalisation and fallback\<close>





section \<open>Properties of the session\<close>

subsection \<open>What one run stores\<close>

lemmas page_defs = display_def transcript_panel_def analysis_panel_def playback_panel_def
  recordings_panel_def saved_recordings_def os_listdir_def seq_def emit_def raise_def

lemmas run_defs = stop_handler_def initial_session_def
  recording_session_def Let_def example_env_def analyze_def
  generate_meeting_summary_def and_then_def save_audio_def sf_write_def save_filename_def
  base_name_def strftime_def pad4_def pad2_def digit_def slice_to_def py_int_def


lemma stop_handler_analysis_stored:
  assumes "is_recording (sess r)" and "recorder (sess r) = Some buffer"
      and "start_time (sess r) = Some t0" and "write_ok e"
      and "transcribe e (save_filename (date_now e)) = Inr transcript"
      and "chat_completion e transcript = Inr reply"
      and "\<forall>s'. py_eval e reply s' = (Inr analysis, s')"
  shows "sess (stop_handler e r) =
           (sess r)\<lparr>is_recording := False,
                    elapsed_time := Some (float_round e (time_now e - t0)),
                    last_recording := Some (save_filename (date_now e)),
                    last_transcription := Some transcript,
                    last_analysis := Some analysis, recorder := None\<rparr>"
  using assms
  by (simp add: stop_handler_def save_audio_def analyze_def generate_meeting_summary_def
        and_then_def Let_def)

lemma script_stop_state:
  "sess (script e StopRecording (s, fs)) =
     sess (stop_handler e \<lparr>sess = s, files = fs,
             shown = [Title ''Smart Meeting Recorder & Analyzer'',
                      Text ''Record your meeting and get AI-powered insights!''],
             crashed = None\<rparr>)"
  "files (script e StopRecording (s, fs)) =
     files (stop_handler e \<lparr>sess = s, files = fs,
             shown = [Title ''Smart Meeting Recorder & Analyzer'',
                      Text ''Record your meeting and get AI-powered insights!''],
             crashed = None\<rparr>)"
  by (simp_all add: script_def Let_def)

lemma stop_handler_saves:
  assumes "is_recording (sess r)" and "recorder (sess r) = Some buffer"
      and "start_time (sess r) = Some t0" and "write_ok e"
  shows "files (stop_handler e r) =
           sf_write (files r) (save_filename (date_now e))
             (slice_to buffer (py_int (float_round e (float_round e (time_now e - t0) * 44100))),
              44100)"
  using assms
  by (simp add: stop_handler_def save_audio_def Let_def split: sum.splits prod.splits)


lemma start_example:
  "script example_env StartRecording (initial_session, []) =
     \<lparr>sess = recording_session, files = [],
      shown = [Title ''Smart Meeting Recorder & Analyzer'',
               Text ''Record your meeting and get AI-powered insights!'',
               Info ''Recording... Click 'Stop Recording' when finished.'',
               Warning ''Recording in progress...'',
               Expander ''Saved Recordings''],
      crashed = None\<rparr>"
  by (simp add: script_def start_handler_def initial_session_def recording_session_def Let_def
        example_env_def record_audio_stream_def page_defs)

subsection \<open>Stopping while nothing is recorded\<close>

text \<open>
  Claim C3 says that a stop action while \<open>is_recording\<close> is false leaves the session as it
  is and shows a notice that nothing is in progress. The code leaves the session as it is
  but shows no notice: on a fresh session the page after a click on Stop Recording is the
  title, the introduction and the list of saved recordings. The message
  \<open>No recording in progress!\<close> exists in the handler, on a branch that is reached only while
  \<open>is_recording\<close> is true.
\<close>

theorem stop_while_idle_shows_no_notice:
  "script example_env StopRecording (initial_session, []) =
     \<lparr>sess = initial_session, files = [],
      shown = [Title ''Smart Meeting Recorder & Analyzer'',
               Text ''Record your meeting and get AI-powered insights!'',
               Expander ''Saved Recordings''],
      crashed = None\<rparr>"
  by (simp add: script_def stop_handler_def initial_session_def Let_def page_defs)

text \<open>In every idle session a click on Stop Recording is the same as a run without a click.\<close>

lemma stop_while_idle_is_plain_rerun:
  "\<not> is_recording s \<Longrightarrow> script e StopRecording (s, fs) = script e NoButton (s, fs)"
  by (simp add: script_def stop_handler_def Let_def)

lemma plain_rerun_keeps_state:
  "sess (script e NoButton (s, fs)) = s \<and> files (script e NoButton (s, fs)) = fs"
  by (simp add: script_def Let_def)

subsection \<open>The recording flag\<close>

text \<open>
  Claim C4 says that \<open>is_recording\<close> is true exactly between a start action and the matching
  stop action. The code sets the flag before it opens the sound device. When the device
  cannot be opened the exception ends the run with the flag set and no buffer, and a later
  stop action reports \<open>No recording in progress!\<close> and leaves the flag set.
\<close>

theorem failed_start_leaves_flag_set:
  "script no_device_env StartRecording (initial_session, []) =
     \<lparr>sess = stuck_session, files = [],
      shown = [Title ''Smart Meeting Recorder & Analyzer'',
               Text ''Record your meeting and get AI-powered insights!''],
      crashed = Some PortAudioError\<rparr> \<and>
   script example_env StopRecording (stuck_session, []) =
     \<lparr>sess = stuck_session, files = [],
      shown = [Title ''Smart Meeting Recorder & Analyzer'',
               Text ''Record your meeting and get AI-powered insights!'',
               Error ''No recording in progress!'',
               Warning ''Recording in progress...'',
               Expander ''Saved Recordings''],
      crashed = None\<rparr> \<and>
   is_recording stuck_session"
  by (simp add: script_def start_handler_def stop_handler_def initial_session_def stuck_session_def
        Let_def example_env_def no_device_env_def record_audio_stream_def page_defs)

text \<open>From such a session no click changes the session any more.\<close>

lemma stuck_forever:
  assumes "is_recording s" and "recorder s = None"
  shows "sess (script e c (s, fs)) = s"
  using assms by (cases c) (simp_all add: script_def start_handler_def stop_handler_def Let_def)

text \<open>
  When the sound device opens at every start and the evaluated replies leave the session
  alone, the flag is the flag of the specification after every sequence of runs, and a
  start action while recording changes nothing.
\<close>

lemma flag_follows_click:
  assumes "is_recording s \<longrightarrow> recorder s \<noteq> None" and "microphone e \<noteq> None"
      and "\<forall>text s'. snd (py_eval e text s') = s'"
  shows "is_recording (sess (script e c (s, fs))) = spec_is_recording [c] (is_recording s) \<and>
         (is_recording (sess (script e c (s, fs))) \<longrightarrow> recorder (sess (script e c (s, fs))) \<noteq> None)"
proof (cases c)
  case StartRecording
  with assms show ?thesis
    by (auto simp: script_def start_handler_def record_audio_stream_def Let_def)
next
  case StopRecording
  have pure: "py_eval e reply s' = (v, t) \<Longrightarrow> t = s'" for reply s' v t
    using assms(3) by (metis snd_conv)
  from StopRecording assms(1) show ?thesis
    by (auto simp: script_def stop_handler_def save_audio_def analyze_def Let_def
          split: option.splits sum.splits prod.splits dest!: pure)
next
  case NoButton
  with assms(1) show ?thesis by (simp add: script_def Let_def)
qed

lemma flag_follows_clicks:
  assumes "\<forall>(e, c) \<in> set tr. microphone e \<noteq> None \<and> (\<forall>text s'. snd (py_eval e text s') = s')"
      and "is_recording s \<longrightarrow> recorder s \<noteq> None"
  shows "is_recording (fst (interact tr (s, fs))) = spec_is_recording (map snd tr) (is_recording s)"
  using assms
proof (induction tr arbitrary: s fs)
  case Nil
  then show ?case by simp
next
  case (Cons ec tr)
  obtain e c where ec: "ec = (e, c)" by (cases ec)
  let ?r = "script e c (s, fs)"
  from Cons.prems ec have mic: "microphone e \<noteq> None"
    and pure: "\<forall>text s'. snd (py_eval e text s') = s'"
    and rest: "\<forall>(e, c) \<in> set tr. microphone e \<noteq> None \<and> (\<forall>text s'. snd (py_eval e text s') = s')"
    by auto
  note step = flag_follows_click[OF Cons.prems(2) mic pure, of c fs]
  have "is_recording (fst (interact tr (sess ?r, files ?r)))
          = spec_is_recording (map snd tr) (is_recording (sess ?r))"
    using Cons.IH[OF rest] step by blast
  moreover have "spec_is_recording (c # map snd tr) (is_recording s)
          = spec_is_recording (map snd tr) (spec_is_recording [c] (is_recording s))"
    by (cases c) simp_all
  ultimately show ?case using step by (simp add: ec Let_def)
qed

lemma start_while_recording_is_plain_rerun:
  "is_recording s \<Longrightarrow> script e StartRecording (s, fs) = script e NoButton (s, fs)"
  by (simp add: script_def start_handler_def Let_def)

subsection \<open>Replies that are not an analysis\<close>

text \<open>
  Claim C1 says that a reply which is not a JSON document of the expected shape makes the
  parsing step fail with an error that is caught and shown as a notice, and that the reply
  is never evaluated as code. The code hands the reply to \<open>eval\<close>. For a reply that is a JSON
  object without the expected keys \<open>eval\<close> returns a dictionary: the handler stores it as
  the analysis and shows no error, and the dashboard then raises \<open>KeyError\<close> outside any
  \<open>try\<close>, which ends the run.
\<close>

theorem ill_shaped_reply_is_accepted:
  "script ill_shaped_env StopRecording (recording_session, []) =
     \<lparr>sess = recording_session
        \<lparr>is_recording := False, elapsed_time := Some 2, recorder := None,
          last_recording := Some ''recordings/audio_20260302_030405.wav'',
          last_transcription := Some ''first meeting'',
          last_analysis := Some (PyDict [(''summary'', PyInt 1)])\<rparr>,
      files = [(''recordings/audio_20260302_030405.wav'',
                (take 88200 (map (\<lambda>i. 0) [0..<158760000]), 44100))],
      shown = [Title ''Smart Meeting Recorder & Analyzer'',
               Text ''Record your meeting and get AI-powered insights!'',
               Success ''Recording saved!'',
               Success ''Analysis complete!'',
               Expander ''Meeting Transcript'', Text ''first meeting'',
               Header ''Meeting Analysis Dashboard'',
               Expander ''Executive Summary''],
      crashed = Some (KeyError ''executive_summary'')\<rparr>"
  by (simp add: script_def stop_handler_def recording_session_def initial_session_def Let_def
        example_env_def ill_shaped_env_def example_reply_def analyze_def generate_meeting_summary_def and_then_def
        save_audio_def sf_write_def save_filename_def base_name_def strftime_def pad4_def pad2_def
        digit_def slice_to_def py_int_def page_defs dashboard_def upper_panels_def
        summary_panel_def of_result_def)

subsection \<open>A failed analysis\<close>








text \<open>
  The condition on \<open>eval\<close> is needed: a reply whose code removes the stored analysis and
  then raises is caught like any other failure, and the session is left without the
  earlier analysis.
\<close>

lemma evaluated_reply_can_change_session:
  "last_transcription (sess (script side_effect_env StopRecording (second_recording_session, [])))
     = Some ''second meeting'' \<and>
   last_analysis (sess (script side_effect_env StopRecording (second_recording_session, [])))
     = None"
  by (simp add: script_stop_state run_defs second_recording_session_def side_effect_env_def
        malformed_env_def second_start_env_def)

subsection \<open>Length of the saved buffer\<close>

lemma rounded_frames:
  fixes rnd :: "real \<Rightarrow> real" and d :: real
  assumes mono: "mono rnd" and exact: "\<forall>k::nat. k \<le> 2 ^ 53 \<longrightarrow> rnd (real k) = real k"
      and d: "0 \<le> d" "d \<le> 3600"
  shows "0 \<le> py_int (rnd (d * 44100)) \<and> py_int (rnd (d * 44100)) \<le> 158760000 \<and>
         \<bar>real_of_int (py_int (rnd (d * 44100))) - d * 44100\<bar> < 1"
proof -
  define x where "x = d * 44100"
  define k where "k = nat \<lfloor>x\<rfloor>"
  have x: "0 \<le> x" "x \<le> 158760000" using d by (simp_all add: x_def)
  have kx: "real k \<le> x" "x < real k + 1" using x(1) unfolding k_def by linarith+
  have kb: "k \<le> 158760000" using x(2) kx(1) by linarith
  have "(158760000 :: nat) + 1 \<le> 2 ^ 53" by simp
  with kb have k53: "k \<le> 2 ^ 53" "Suc k \<le> 2 ^ 53" by linarith+
  have e0: "rnd (real k) = real k" and e1: "rnd (real (Suc k)) = real (Suc k)"
    using exact k53 by blast+
  have etop: "rnd 158760000 = 158760000" using exact[rule_format, of 158760000] by simp
  have lo: "real k \<le> rnd x" using monoD[OF mono kx(1)] e0 by simp
  have "x \<le> real (Suc k)" using kx(2) by simp
  then have hi: "rnd x \<le> real k + 1" using monoD[OF mono, of x "real (Suc k)"] e1 by simp
  have top: "rnd x \<le> 158760000" using monoD[OF mono x(2)] etop by simp
  have nonneg: "0 \<le> rnd x" using lo by linarith
  then have p: "py_int (rnd x) = \<lfloor>rnd x\<rfloor>" by (simp add: py_int_def)
  have f1: "int k \<le> \<lfloor>rnd x\<rfloor>" using lo by (simp add: le_floor_iff)
  have f2: "\<lfloor>rnd x\<rfloor> \<le> int k + 1" using hi by (simp add: floor_le_iff)
  have f3: "\<lfloor>rnd x\<rfloor> \<le> 158760000" using top by (simp add: floor_le_iff)
  have close: "\<bar>real_of_int \<lfloor>rnd x\<rfloor> - x\<bar> < 1"
  proof (cases "\<lfloor>rnd x\<rfloor> = int k")
    case True
    then show ?thesis using kx by simp
  next
    case False
    with f1 f2 have eq: "\<lfloor>rnd x\<rfloor> = int k + 1" by linarith
    then have "real k + 1 \<le> rnd x" using le_floor_iff[of "int k + 1" "rnd x"] by simp
    with hi have "rnd x = real k + 1" by linarith
    then have "x \<noteq> real k" using e0 by auto
    with kx(1) have "real k < x" by linarith
    with kx(2) eq show ?thesis by simp
  qed
  have "0 \<le> py_int (rnd x)" unfolding p using f1 by linarith
  moreover have "py_int (rnd x) \<le> 158760000" unfolding p by (rule f3)
  moreover have "\<bar>real_of_int (py_int (rnd x)) - x\<bar> < 1" unfolding p by (rule close)
  ultimately show ?thesis unfolding x_def by blast
qed

text \<open>
  Claim C5. The session is recording into the one-hour buffer, and the elapsed time \<open>d\<close>
  that the stop handler computes lies between 0 and 3600 seconds. Float operations round
  monotonically and are exact on the integers up to \<open>2 ^ 53\<close>. Then the file that the stop
  action writes holds the first \<open>n\<close> frames of the buffer at 44100 Hz, where \<open>n\<close> differs
  from \<open>d * 44100\<close> by less than one frame.
\<close>

theorem saved_buffer_is_elapsed_prefix:
  assumes "is_recording s" and "recorder s = Some buffer" and "length buffer = 44100 * 3600"
      and "start_time s = Some t0" and "write_ok e"
      and "mono (float_round e)"
      and "\<forall>k::nat. k \<le> 2 ^ 53 \<longrightarrow> float_round e (real k) = real k"
      and "float_round e (time_now e - t0) = d" and "0 \<le> d" and "d \<le> 3600"
  shows "\<exists>n. map_of (files (script e StopRecording (s, fs))) (save_filename (date_now e))
               = Some (take n buffer, 44100) \<and>
             length (take n buffer) = n \<and> \<bar>real n - d * 44100\<bar> < 1"
proof -
  let ?m = "py_int (float_round e (d * 44100))"
  from rounded_frames[OF assms(6,7,9,10)]
  have m: "0 \<le> ?m" "?m \<le> 158760000" "\<bar>real_of_int ?m - d * 44100\<bar> < 1" by simp_all
  have "files (script e StopRecording (s, fs)) =
          sf_write fs (save_filename (date_now e)) (slice_to buffer ?m, 44100)"
    using stop_handler_saves[where r = "\<lparr>sess = s, files = fs,
             shown = [Title ''Smart Meeting Recorder & Analyzer'',
                      Text ''Record your meeting and get AI-powered insights!''],
             crashed = None\<rparr>" and e = e and buffer = buffer and ?t0.0 = t0] assms(1,2,4,5,8)
    by (simp add: script_stop_state)
  then have "map_of (files (script e StopRecording (s, fs))) (save_filename (date_now e))
               = Some (take (nat ?m) buffer, 44100)"
    using m(1) by (simp add: sf_write_def slice_to_def)
  moreover have "length (take (nat ?m) buffer) = nat ?m" using m(1,2) assms(3) by simp
  moreover have "\<bar>real (nat ?m) - d * 44100\<bar> < 1" using m(1,3) by simp
  ultimately show ?thesis by blast
qed

theorem saved_buffer_is_elapsed_prefix_witness:
  "\<exists>n. map_of (files (script stop_env StopRecording (recording_session, [])))
            ''recordings/audio_20260302_030405.wav''
          = Some (take n (map (\<lambda>i. 0) [0..<44100 * 3600]), 44100) \<and>
        length (take n (map (\<lambda>i. 0 :: real) [0..<44100 * 3600])) = n \<and> \<bar>real n - 2 * 44100\<bar> < 1"
proof -
  have "save_filename (date_now stop_env) = ''recordings/audio_20260302_030405.wav''"
    by (simp add: stop_env_def example_env_def save_filename_def base_name_def strftime_def
          pad4_def pad2_def digit_def)
  then show ?thesis
    using saved_buffer_is_elapsed_prefix
      [of recording_session "map (\<lambda>i. 0) [0..<44100 * 3600]" 100 stop_env 2 "[]"]
    by (simp add: recording_session_def initial_session_def stop_env_def example_env_def mono_def)
qed

text \<open>
  Claim C10. For every elapsed time, whatever the clock and the rounding, the stop action
  of a recording session reaches \<open>save_audio\<close> when the write succeeds: the saved buffer is
  a prefix of the recorder's buffer, it has at most one hour of frames, and it is the whole
  buffer when the requested length is at least the buffer's length.
\<close>

theorem truncation_is_total_and_capped:
  assumes "is_recording s" and "recorder s = Some buffer" and "start_time s = Some t0"
      and "write_ok e" and "record_audio_stream e0 = Inr buffer"
  shows "\<exists>saved. map_of (files (script e StopRecording (s, fs))) (save_filename (date_now e))
                   = Some (saved, 44100) \<and>
           prefix saved buffer \<and> length saved \<le> 3600 * 44100 \<and>
           (int (length buffer) \<le> py_int (float_round e (float_round e (time_now e - t0) * 44100))
              \<longrightarrow> saved = buffer)"
proof -
  let ?m = "py_int (float_round e (float_round e (time_now e - t0) * 44100))"
  have len: "length buffer = 3600 * 44100"
    using assms(5) by (auto simp: record_audio_stream_def split: option.splits)
  have "files (script e StopRecording (s, fs)) =
          sf_write fs (save_filename (date_now e)) (slice_to buffer ?m, 44100)"
    using stop_handler_saves[where r = "\<lparr>sess = s, files = fs,
             shown = [Title ''Smart Meeting Recorder & Analyzer'',
                      Text ''Record your meeting and get AI-powered insights!''],
             crashed = None\<rparr>" and e = e and buffer = buffer and ?t0.0 = t0] assms(1-4)
    by (simp add: script_stop_state)
  then have "map_of (files (script e StopRecording (s, fs))) (save_filename (date_now e))
               = Some (slice_to buffer ?m, 44100)"
    by (simp add: sf_write_def)
  moreover have "prefix (slice_to buffer ?m) buffer"
    by (simp add: slice_to_def take_is_prefix)
  moreover have "length (slice_to buffer ?m) \<le> length buffer"
    by (auto simp: slice_to_def)
  then have "length (slice_to buffer ?m) \<le> 3600 * 44100"
    by (simp only: len)
  moreover have "int (length buffer) \<le> ?m \<longrightarrow> slice_to buffer ?m = buffer"
    by (simp add: slice_to_def)
  ultimately show ?thesis by blast
qed

theorem truncation_is_total_and_capped_witness:
  "\<exists>saved. map_of (files (script long_stop_env StopRecording (recording_session, [])))
               ''recordings/audio_20260302_030405.wav'' = Some (saved, 44100) \<and>
     prefix saved (map (\<lambda>i. 0) [0..<44100 * 3600]) \<and> length saved \<le> 3600 * 44100 \<and>
     saved = map (\<lambda>i. 0) [0..<44100 * 3600]"
proof -
  have "save_filename (date_now long_stop_env) = ''recordings/audio_20260302_030405.wav''"
    by (simp add: long_stop_env_def example_env_def save_filename_def base_name_def strftime_def
          pad4_def pad2_def digit_def)
  moreover have "int (length (map (\<lambda>i. 0 :: real) [0..<44100 * 3600]))
           \<le> py_int (float_round long_stop_env (float_round long_stop_env (time_now long_stop_env - 100) * 44100))"
    by (simp add: long_stop_env_def example_env_def py_int_def)
  ultimately show ?thesis
    using truncation_is_total_and_capped
      [of recording_session "map (\<lambda>i. 0) [0..<44100 * 3600]" 100 long_stop_env example_env "[]"]
    by (simp add: recording_session_def initial_session_def long_stop_env_def example_env_def
          record_audio_stream_def)
qed

end
